theory Spec2Isabelle
  imports Main
begin

section \<open>Library management system: the store and the catalogue operations\<close>

text \<open>
  The program is one Python file, \<^verbatim>\<open>python_mini_project.py\<close>, with two classes:
  \<^verbatim>\<open>FileStorage\<close> holds the JSON document in memory and hands out identifiers,
  \<^verbatim>\<open>LibrarySystem\<close> implements the menu operations on it. Python integers are
  unbounded, so every number is an \<open>int\<close>. Each operation reads its arguments with
  \<^verbatim>\<open>input()\<close>; the model takes the typed lines as arguments, in the order the
  prompts ask for them. An operation takes the document and returns its outcome together
  with the document it leaves behind, because the document can change before an exception
  is caught. \<^verbatim>\<open>save_data\<close> writes the document to the backing file and changes
  nothing in memory, and no caller looks at its result, so it has no counterpart here.
\<close>

subsection \<open>Text\<close>

text \<open>
  A Python \<^verbatim>\<open>str\<close> is a sequence of Unicode code points: a list of numbers here.
  \<open>str_of\<close> gives the code points of a literal made of ASCII characters.
\<close>

type_synonym str = "nat list"

abbreviation str_of :: "string \<Rightarrow> str" where
  "str_of s \<equiv> map of_char s"

text \<open>\<^verbatim>\<open>kw in s\<close> on strings: \<open>kw\<close> occurs in \<open>s\<close> as a contiguous run.\<close>

fun py_in :: "str \<Rightarrow> str \<Rightarrow> bool" where
  "py_in kw [] = (kw = [])"
| "py_in kw (c # cs) = (take (length kw) (c # cs) = kw \<or> py_in kw cs)"

text \<open>
  The program calls three functions of Python on text: \<^verbatim>\<open>int(text)\<close>, which
  returns an integer or raises \<^verbatim>\<open>ValueError\<close> (\<open>None\<close> here),
  \<^verbatim>\<open>text.strip()\<close> and \<^verbatim>\<open>text.lower()\<close>. What they compute depends on the
  Unicode character database: \<^verbatim>\<open>int\<close> accepts the decimal digits and skips the
  whitespace of every script, \<^verbatim>\<open>strip\<close> removes every Unicode whitespace
  character, and \<^verbatim>\<open>lower\<close> is not a map over characters (a capital sigma is
  lowered according to its position in the word). The three functions are therefore
  parameters of the operations, and a property stated for \<open>py\<close> holds whatever the three
  functions are.
\<close>

record builtins =
  py_int :: "str \<Rightarrow> int option"
  py_strip :: "str \<Rightarrow> str"
  py_lower :: "str \<Rightarrow> str"

subsection \<open>The three functions on ASCII text\<close>

text \<open>
  On text whose code points are all below 128 the three functions are as follows, and
  \<open>ascii_text\<close> collects them. It is applied to such text only, in the examples.

  \<^verbatim>\<open>str.strip()\<close> without arguments removes leading and trailing whitespace; the
  ASCII whitespace characters of \<^verbatim>\<open>str\<close> are the codes 9 to 13 and 28 to 32.
  \<^verbatim>\<open>str.lower()\<close> sends the letters A to Z (65 to 90) to a to z and keeps the rest.
\<close>

definition ascii_space :: "nat \<Rightarrow> bool" where
  "ascii_space c = ((9 \<le> c \<and> c \<le> 13) \<or> (28 \<le> c \<and> c \<le> 32))"

definition ascii_strip :: "str \<Rightarrow> str" where
  "ascii_strip s = rev (dropWhile ascii_space (rev (dropWhile ascii_space s)))"

definition ascii_lower :: "str \<Rightarrow> str" where
  "ascii_lower s = map (\<lambda>c. if 65 \<le> c \<and> c \<le> 90 then c + 32 else c) s"

text \<open>
  \<^verbatim>\<open>int(text)\<close> in base 10 skips leading and trailing whitespace, which for
  \<^verbatim>\<open>int\<close> is the codes 9 to 13 and 32 only, allows one sign (43 is the plus sign,
  45 the minus sign), then wants at least one digit (48 to 57), with single underscores
  (95) allowed between digits. Anything else raises \<^verbatim>\<open>ValueError\<close>. CPython also
  raises \<^verbatim>\<open>ValueError\<close> when the literal has more than 4300 digits, its default
  limit for the conversion of decimal strings.
\<close>

definition int_space :: "nat \<Rightarrow> bool" where
  "int_space c = ((9 \<le> c \<and> c \<le> 13) \<or> c = 32)"

definition digit_of :: "nat \<Rightarrow> int option" where
  "digit_of c = (if 48 \<le> c \<and> c \<le> 57 then Some (int c - 48) else None)"

fun py_digits_acc :: "int \<Rightarrow> str \<Rightarrow> int option" where
  "py_digits_acc acc [] = Some acc"
| "py_digits_acc acc (c # cs) =
     (if c = 95 then
        (case cs of
           [] \<Rightarrow> None
         | d # ds \<Rightarrow>
             (case digit_of d of
                None \<Rightarrow> None
              | Some v \<Rightarrow> py_digits_acc (10 * acc + v) ds))
      else
        (case digit_of c of
           None \<Rightarrow> None
         | Some v \<Rightarrow> py_digits_acc (10 * acc + v) cs))"

definition py_digits :: "str \<Rightarrow> int option" where
  "py_digits s =
     (case s of
        [] \<Rightarrow> None
      | c # cs \<Rightarrow>
          (case digit_of c of
             None \<Rightarrow> None
           | Some v \<Rightarrow>
               if length (filter (\<lambda>x. x \<noteq> 95) s) > 4300 then None
               else py_digits_acc v cs))"

definition ascii_int :: "str \<Rightarrow> int option" where
  "ascii_int t =
     (case rev (dropWhile int_space (rev (dropWhile int_space t))) of
        [] \<Rightarrow> None
      | c # cs \<Rightarrow>
          if c = 45 then map_option uminus (py_digits cs)
          else if c = 43 then py_digits cs
          else py_digits (c # cs))"

definition ascii_text :: builtins where
  "ascii_text = \<lparr>py_int = ascii_int, py_strip = ascii_strip, py_lower = ascii_lower\<rparr>"

subsection \<open>Calendar dates\<close>

text \<open>
  What \<^verbatim>\<open>datetime.today()\<close> returns is a parameter of the operations that read the
  clock, one for each call. Only the date part is used. \<^verbatim>\<open>d.replace(day=n)\<close>
  builds the date with the year and month of \<open>d\<close> and day \<open>n\<close>; it raises
  \<^verbatim>\<open>ValueError\<close> when that month has no day \<open>n\<close>. \<^verbatim>\<open>strftime('%Y-%m-%d')\<close>
  prints year, month and day as 4, 2 and 2 decimal digits (the years are those of a
  running clock, 1000 to 9999), with the hyphen (45) between them; 48 is the digit 0.
\<close>

record date =
  year :: nat
  month :: nat
  day :: nat

definition is_leap :: "nat \<Rightarrow> bool" where
  "is_leap y = (y mod 4 = 0 \<and> (y mod 100 \<noteq> 0 \<or> y mod 400 = 0))"

definition days_in_month :: "nat \<Rightarrow> nat \<Rightarrow> nat" where
  "days_in_month y m =
     (if m = 2 then (if is_leap y then 29 else 28)
      else if m = 4 \<or> m = 6 \<or> m = 9 \<or> m = 11 then 30
      else 31)"

definition replace_day :: "date \<Rightarrow> nat \<Rightarrow> date option" where
  "replace_day d n =
     (if 1 \<le> n \<and> n \<le> days_in_month (year d) (month d) then Some (d\<lparr>day := n\<rparr>) else None)"

definition pad2 :: "nat \<Rightarrow> str" where
  "pad2 n = [48 + n div 10 mod 10, 48 + n mod 10]"

definition pad4 :: "nat \<Rightarrow> str" where
  "pad4 n = [48 + n div 1000 mod 10, 48 + n div 100 mod 10, 48 + n div 10 mod 10, 48 + n mod 10]"

definition strftime :: "date \<Rightarrow> str" where
  "strftime d = pad4 (year d) @ [45] @ pad2 (month d) @ [45] @ pad2 (day d)"

subsection \<open>The document held by FileStorage\<close>

record book =
  book_id :: int
  title :: str
  author :: str
  genre :: str
  copies :: int

record library_card =
  card_no :: int
  name :: str
  branch :: str
  subscription :: int
  issue_date :: str

text \<open>
  A borrower record has the keys \<^verbatim>\<open>card_no\<close>, \<^verbatim>\<open>name\<close> and \<^verbatim>\<open>book_id\<close> too;
  its fields carry the prefix \<open>br_\<close> where the key is also a key of another record.
\<close>

record borrower =
  borrower_id :: int
  br_card_no :: int
  br_name :: str
  address :: str
  phone :: str
  br_book_id :: int
  book_title :: str
  issued_date :: str
  return_date :: str

record store =
  books :: "book list"
  library_cards :: "library_card list"
  borrowers :: "borrower list"
  next_book_id :: int
  next_card_no :: int
  next_borrower_id :: int

text \<open>The default structure that \<^verbatim>\<open>load_data\<close> builds.\<close>

definition default_store :: store where
  "default_store =
     \<lparr>books = [], library_cards = [], borrowers = [],
      next_book_id = 1, next_card_no = 1, next_borrower_id = 1\<rparr>"

text \<open>
  \<^verbatim>\<open>get_next_id(key)\<close> is only called with the three counter keys, so the key is a
  datatype. It returns the stored value and stores the value plus one.
\<close>

datatype counter = NextBookId | NextCardNo | NextBorrowerId

fun get_counter :: "counter \<Rightarrow> store \<Rightarrow> int" where
  "get_counter NextBookId s = next_book_id s"
| "get_counter NextCardNo s = next_card_no s"
| "get_counter NextBorrowerId s = next_borrower_id s"

fun set_counter :: "counter \<Rightarrow> int \<Rightarrow> store \<Rightarrow> store" where
  "set_counter NextBookId v s = s\<lparr>next_book_id := v\<rparr>"
| "set_counter NextCardNo v s = s\<lparr>next_card_no := v\<rparr>"
| "set_counter NextBorrowerId v s = s\<lparr>next_borrower_id := v\<rparr>"

definition get_next_id :: "counter \<Rightarrow> store \<Rightarrow> int \<times> store" where
  "get_next_id key s = (get_counter key s, set_counter key (get_counter key s + 1) s)"

subsection \<open>Outcomes\<close>

text \<open>
  Each failure message of the program is one error value: the \<^verbatim>\<open>ValueError\<close>
  handlers print "Invalid input", the other three messages of \<^verbatim>\<open>issue_book\<close> and
  the one of \<^verbatim>\<open>return_book\<close> name what was not found.
\<close>

datatype error =
  InvalidInput | CardNotFound | BookNotFound | NoCopiesAvailable | BorrowerNotFound

subsection \<open>Book operations\<close>

text \<open>
  \<^verbatim>\<open>add_book\<close> converts the copies line with \<^verbatim>\<open>int\<close> before it takes an
  identifier, so a \<^verbatim>\<open>ValueError\<close> leaves the document as it was.
\<close>

definition add_book ::
  "builtins \<Rightarrow> str \<Rightarrow> str \<Rightarrow> str \<Rightarrow> str \<Rightarrow> store \<Rightarrow> (error + int) \<times> store" where
  "add_book py title_in author_in genre_in copies_in s =
     (case py_int py copies_in of
        None \<Rightarrow> (Inl InvalidInput, s)
      | Some n \<Rightarrow>
          (let (bid, s1) = get_next_id NextBookId s;
               new_book = \<lparr>book_id = bid, title = py_strip py title_in,
                           author = py_strip py author_in, genre = py_strip py genre_in,
                           copies = n\<rparr>
           in (Inr bid, s1\<lparr>books := books s1 @ [new_book]\<rparr>)))"

text \<open>\<^verbatim>\<open>find_book\<close> returns the first book with the identifier.\<close>

definition find_book :: "int \<Rightarrow> store \<Rightarrow> book option" where
  "find_book bid s = find (\<lambda>b. book_id b = bid) (books s)"

text \<open>
  \<^verbatim>\<open>update_book_copies\<close> changes the dictionary that \<^verbatim>\<open>find_book\<close> returned, in
  place: in the list, the first book with the identifier is replaced.
\<close>

fun replace_book :: "int \<Rightarrow> book \<Rightarrow> book list \<Rightarrow> book list" where
  "replace_book bid b' [] = []"
| "replace_book bid b' (b # bs) =
     (if book_id b = bid then b' # bs else b # replace_book bid b' bs)"

definition update_book_copies :: "int \<Rightarrow> int \<Rightarrow> store \<Rightarrow> bool \<times> store" where
  "update_book_copies bid change s =
     (case find_book bid s of
        Some b \<Rightarrow>
          (let c1 = copies b + change;
               c2 = (if c1 < 0 then 0 else c1)
           in (True, s\<lparr>books := replace_book bid (b\<lparr>copies := c2\<rparr>) (books s)\<rparr>))
      | None \<Rightarrow> (False, s))"

subsection \<open>Library cards\<close>

definition issue_card ::
  "builtins \<Rightarrow> date \<Rightarrow> str \<Rightarrow> str \<Rightarrow> str \<Rightarrow> store \<Rightarrow> (error + int) \<times> store" where
  "issue_card py today name_in branch_in subscription_in s =
     (case py_int py subscription_in of
        None \<Rightarrow> (Inl InvalidInput, s)
      | Some months \<Rightarrow>
          (let (cno, s1) = get_next_id NextCardNo s;
               new_card = \<lparr>card_no = cno, name = py_strip py name_in,
                           branch = py_strip py branch_in, subscription = months,
                           issue_date = strftime today\<rparr>
           in (Inr cno, s1\<lparr>library_cards := library_cards s1 @ [new_card]\<rparr>)))"

definition find_card :: "int \<Rightarrow> store \<Rightarrow> library_card option" where
  "find_card cno s = find (\<lambda>c. card_no c = cno) (library_cards s)"

subsection \<open>Issuing and returning a book\<close>

text \<open>
  \<^verbatim>\<open>issue_book\<close> reads the card number, looks the card up, reads name, address,
  phone and book identifier, looks the book up and checks its copies. Only then does it
  take a borrower identifier. It reads the clock three times: \<open>today1\<close> gives the
  issued date, and the due date is
  \<^verbatim>\<open>datetime.today().replace(day=datetime.today().day + 14)\<close>, with \<open>today2\<close> the
  date that is replaced and \<open>today3\<close> the one whose day is read. The
  \<^verbatim>\<open>ValueError\<close> of \<^verbatim>\<open>replace\<close> is caught by the handler of the whole
  operation, after the counter has been incremented.
\<close>

definition issue_book ::
  "builtins \<Rightarrow> date \<Rightarrow> date \<Rightarrow> date \<Rightarrow> str \<Rightarrow> str \<Rightarrow> str \<Rightarrow> str \<Rightarrow> str \<Rightarrow> store
     \<Rightarrow> (error + int) \<times> store" where
  "issue_book py today1 today2 today3 card_in name_in address_in phone_in book_in s =
     (case py_int py card_in of
        None \<Rightarrow> (Inl InvalidInput, s)
      | Some cno \<Rightarrow>
          (case find_card cno s of
             None \<Rightarrow> (Inl CardNotFound, s)
           | Some the_card \<Rightarrow>
               (case py_int py book_in of
                  None \<Rightarrow> (Inl InvalidInput, s)
                | Some bid \<Rightarrow>
                    (case find_book bid s of
                       None \<Rightarrow> (Inl BookNotFound, s)
                     | Some b \<Rightarrow>
                         if copies b \<le> 0 then (Inl NoCopiesAvailable, s)
                         else
                           (let (brid, s1) = get_next_id NextBorrowerId s
                            in case replace_day today2 (day today3 + 14) of
                                 None \<Rightarrow> (Inl InvalidInput, s1)
                               | Some due \<Rightarrow>
                                   (let new_borrower =
                                          \<lparr>borrower_id = brid, br_card_no = cno,
                                           br_name = py_strip py name_in,
                                           address = py_strip py address_in,
                                           phone = py_strip py phone_in,
                                           br_book_id = bid, book_title = title b,
                                           issued_date = strftime today1,
                                           return_date = strftime due\<rparr>;
                                        s2 = s1\<lparr>borrowers := borrowers s1 @ [new_borrower]\<rparr>
                                    in (Inr brid, snd (update_book_copies bid (- 1) s2))))))))"

text \<open>
  \<^verbatim>\<open>return_book\<close> takes the first borrower record with the identifier, adds one
  copy to the book it names and drops every borrower record with the identifier.
\<close>

definition return_book :: "builtins \<Rightarrow> str \<Rightarrow> store \<Rightarrow> (error + unit) \<times> store" where
  "return_book py borrower_in s =
     (case py_int py borrower_in of
        None \<Rightarrow> (Inl InvalidInput, s)
      | Some brid \<Rightarrow>
          (case find (\<lambda>br. borrower_id br = brid) (borrowers s) of
             None \<Rightarrow> (Inl BorrowerNotFound, s)
           | Some br \<Rightarrow>
               (let s1 = snd (update_book_copies (br_book_id br) 1 s)
                in (Inr (), s1\<lparr>borrowers :=
                                  filter (\<lambda>x. borrower_id x \<noteq> brid) (borrowers s1)\<rparr>))))"

subsection \<open>Searching\<close>

text \<open>
  \<^verbatim>\<open>search_books\<close> strips and lowers the typed line, then goes through the books
  and appends to the results each book one of whose lowered title, author or genre
  contains it. It only reads the document; the model returns the document too, to say so.
\<close>

fun search_loop :: "builtins \<Rightarrow> str \<Rightarrow> book list \<Rightarrow> book list \<Rightarrow> book list" where
  "search_loop py keyword [] results = results"
| "search_loop py keyword (b # bs) results =
     search_loop py keyword bs
       (if py_in keyword (py_lower py (title b)) \<or>
           py_in keyword (py_lower py (author b)) \<or>
           py_in keyword (py_lower py (genre b))
        then results @ [b] else results)"

definition search_books :: "builtins \<Rightarrow> str \<Rightarrow> store \<Rightarrow> book list \<times> store" where
  "search_books py keyword_in s =
     (let keyword = py_lower py (py_strip py keyword_in)
      in (search_loop py keyword (books s) [], s))"

subsection \<open>Loading the document\<close>

text \<open>
  \<^verbatim>\<open>load_data\<close> returns whatever \<^verbatim>\<open>json.load\<close> returns, so its result is a JSON
  value (\<open>JFloat\<close> carries the literal of a number that is not an integer). The file
  system and the JSON parser are outside the program: the state of the backing file is
  given by whether \<^verbatim>\<open>os.path.exists\<close> holds and, if it does, by what opening and
  parsing the file produces, a JSON value or an exception. The handler of
  \<^verbatim>\<open>load_data\<close> names two exception classes; \<^verbatim>\<open>UnicodeDecodeError\<close> (bytes
  that are not text in the encoding of \<^verbatim>\<open>open\<close>), \<^verbatim>\<open>PermissionError\<close>,
  \<^verbatim>\<open>IsADirectoryError\<close> and \<^verbatim>\<open>RecursionError\<close> (a document nested too deeply)
  are not subclasses of either, and \<open>OtherException\<close> stands for every further class
  that is not.
\<close>

datatype json =
  JNull | JBool bool | JInt int | JFloat str | JStr str | JList "json list"
| JDict "(str \<times> json) list"

datatype exn =
  JSONDecodeError | FileNotFoundError | UnicodeDecodeError | PermissionError
| IsADirectoryError | RecursionError | OtherException

datatype backing_file = Absent | Present "exn + json"

definition default_data :: json where
  "default_data =
     JDict [(str_of ''books'', JList []), (str_of ''library_cards'', JList []),
            (str_of ''borrowers'', JList []), (str_of ''next_book_id'', JInt 1),
            (str_of ''next_card_no'', JInt 1), (str_of ''next_borrower_id'', JInt 1)]"

fun load_data :: "backing_file \<Rightarrow> exn + json" where
  "load_data Absent = Inr default_data"
| "load_data (Present (Inr doc)) = Inr doc"
| "load_data (Present (Inl e)) =
     (if e = JSONDecodeError \<or> e = FileNotFoundError then Inr default_data else Inl e)"

text \<open>The JSON value of a typed document, as \<^verbatim>\<open>json.dump\<close> writes it.\<close>

definition book_json :: "book \<Rightarrow> json" where
  "book_json b =
     JDict [(str_of ''book_id'', JInt (book_id b)), (str_of ''title'', JStr (title b)),
            (str_of ''author'', JStr (author b)), (str_of ''genre'', JStr (genre b)),
            (str_of ''copies'', JInt (copies b))]"

definition card_json :: "library_card \<Rightarrow> json" where
  "card_json c =
     JDict [(str_of ''card_no'', JInt (card_no c)), (str_of ''name'', JStr (name c)),
            (str_of ''branch'', JStr (branch c)),
            (str_of ''subscription'', JInt (subscription c)),
            (str_of ''issue_date'', JStr (issue_date c))]"

definition borrower_json :: "borrower \<Rightarrow> json" where
  "borrower_json r =
     JDict [(str_of ''borrower_id'', JInt (borrower_id r)),
            (str_of ''card_no'', JInt (br_card_no r)), (str_of ''name'', JStr (br_name r)),
            (str_of ''address'', JStr (address r)), (str_of ''phone'', JStr (phone r)),
            (str_of ''book_id'', JInt (br_book_id r)),
            (str_of ''book_title'', JStr (book_title r)),
            (str_of ''issued_date'', JStr (issued_date r)),
            (str_of ''return_date'', JStr (return_date r))]"

definition store_json :: "store \<Rightarrow> json" where
  "store_json s =
     JDict [(str_of ''books'', JList (map book_json (books s))),
            (str_of ''library_cards'', JList (map card_json (library_cards s))),
            (str_of ''borrowers'', JList (map borrower_json (borrowers s))),
            (str_of ''next_book_id'', JInt (next_book_id s)),
            (str_of ''next_card_no'', JInt (next_card_no s)),
            (str_of ''next_borrower_id'', JInt (next_borrower_id s))]"

subsection \<open>Sequences of calls\<close>

text \<open>\<open>next_ids key n\<close> is \<open>n\<close> calls of \<^verbatim>\<open>get_next_id(key)\<close> in a row, with the values returned.\<close>

fun next_ids :: "counter \<Rightarrow> nat \<Rightarrow> store \<Rightarrow> int list \<times> store" where
  "next_ids key 0 s = ([], s)"
| "next_ids key (Suc n) s =
     (let (i, s1) = get_next_id key s;
          (rest, s2) = next_ids key n s1
      in (i # rest, s2))"

text \<open>
  \<open>add_books\<close> is a row of \<^verbatim>\<open>add_book\<close> calls, one for each quadruple of typed lines
  (title, author, genre, copies), with the outcome of each; \<open>allocated\<close> keeps the
  identifiers of the calls that added a book.
\<close>

fun add_books ::
  "builtins \<Rightarrow> (str \<times> str \<times> str \<times> str) list \<Rightarrow> store \<Rightarrow> (error + int) list \<times> store" where
  "add_books py [] s = ([], s)"
| "add_books py ((t, a, g, c) # rest) s =
     (let (r, s1) = add_book py t a g c s;
          (rs, s2) = add_books py rest s1
      in (r # rs, s2))"

fun allocated :: "(error + int) list \<Rightarrow> int list" where
  "allocated [] = []"
| "allocated (Inl e # rs) = allocated rs"
| "allocated (Inr i # rs) = i # allocated rs"

text \<open>
  The menu loop of \<^verbatim>\<open>main\<close> runs one operation after the other on the same
  document. A command is a menu choice with the lines typed at its prompts, and the dates
  that the clock gives where the operation reads it. \<^verbatim>\<open>update_book_copies\<close> is not
  on the menu; it is a command here so that a sequence can call it directly.
\<close>

datatype command =
  AddBook str str str str
| UpdateCopies int int
| IssueCard date str str str
| IssueBook date date date str str str str str
| ReturnBook str
| SearchBooks str

fun step :: "builtins \<Rightarrow> command \<Rightarrow> store \<Rightarrow> store" where
  "step py (AddBook t a g c) s = snd (add_book py t a g c s)"
| "step py (UpdateCopies bid change) s = snd (update_book_copies bid change s)"
| "step py (IssueCard today n b m) s = snd (issue_card py today n b m s)"
| "step py (IssueBook t1 t2 t3 c n a p b) s = snd (issue_book py t1 t2 t3 c n a p b s)"
| "step py (ReturnBook r) s = snd (return_book py r s)"
| "step py (SearchBooks k) s = snd (search_books py k s)"

fun run :: "builtins \<Rightarrow> command list \<Rightarrow> store \<Rightarrow> store" where
  "run py [] s = s"
| "run py (c # cs) s = run py cs (step py c s)"

subsection \<open>Notions used to state the properties\<close>


text \<open>Every borrower identifier in the document is below the borrower counter.\<close>

definition borrower_ids_below_counter :: "store \<Rightarrow> bool" where
  "borrower_ids_below_counter s =
     (\<forall>br \<in> set (borrowers s). borrower_id br < next_borrower_id s)"

subsection \<open>A small library used in the examples\<close>

definition dune :: book where
  "dune = \<lparr>book_id = 1, title = str_of ''Dune'', author = str_of ''Herbert'',
           genre = str_of ''SciFi'', copies = 2\<rparr>"

definition emma :: book where
  "emma = \<lparr>book_id = 2, title = str_of ''Emma'', author = str_of ''Austen'',
           genre = str_of ''Novel'', copies = 0\<rparr>"

definition alice :: library_card where
  "alice = \<lparr>card_no = 1, name = str_of ''Alice'', branch = str_of ''Main'',
            subscription = 6, issue_date = str_of ''2024-01-05''\<rparr>"

definition old_loan :: borrower where
  "old_loan = \<lparr>borrower_id = 1, br_card_no = 1, br_name = str_of ''Alice'',
               address = str_of ''Elm Road'', phone = str_of ''555'', br_book_id = 2,
               book_title = str_of ''Emma'', issued_date = str_of ''2024-01-02'',
               return_date = str_of ''2024-01-16''\<rparr>"

text \<open>
  \<open>demo_store\<close> has two books, one card and no loan. \<open>clash_store\<close> is the same
  document with one loan whose identifier is the value of the borrower counter, as a
  backing file edited by hand, or put back from an older copy, can hold it.
\<close>

definition demo_store :: store where
  "demo_store = \<lparr>books = [dune, emma], library_cards = [alice], borrowers = [],
                 next_book_id = 3, next_card_no = 2, next_borrower_id = 1\<rparr>"

definition clash_store :: store where
  "clash_store = \<lparr>books = [dune, emma], library_cards = [alice], borrowers = [old_loan],
                  next_book_id = 3, next_card_no = 2, next_borrower_id = 1\<rparr>"

definition jan5 :: date where
  "jan5 = \<lparr>year = 2024, month = 1, day = 5\<rparr>"

definition jan20 :: date where
  "jan20 = \<lparr>year = 2024, month = 1, day = 20\<rparr>"

section \<open>Properties\<close>

lemmas ascii_defs = ascii_text_def ascii_int_def int_space_def py_digits_def digit_of_def
  ascii_strip_def ascii_space_def ascii_lower_def

lemmas date_defs = replace_day_def days_in_month_def is_leap_def strftime_def pad2_def pad4_def

lemmas demo_defs = dune_def emma_def alice_def old_loan_def demo_store_def clash_store_def
  jan5_def jan20_def default_store_def

subsection \<open>Text\<close>




lemma ascii_int_1: "py_int ascii_text (str_of ''1'') = Some 1"
  by (simp add: ascii_defs)

lemma ascii_int_2: "py_int ascii_text (str_of ''2'') = Some 2"
  by (simp add: ascii_defs)

lemma ascii_int_7: "py_int ascii_text (str_of ''7'') = Some 7"
  by (simp add: ascii_defs)

lemma ascii_int_x: "py_int ascii_text (str_of ''x'') = None"
  by (simp add: ascii_defs)

lemma ascii_int_abc: "py_int ascii_text (str_of ''abc'') = None"
  by (simp add: ascii_defs)


lemma ascii_int_minus5: "py_int ascii_text (str_of ''-5'') = Some (- 5)"
  by (simp add: ascii_defs)

lemma ascii_int_padded: "py_int ascii_text (str_of '' +1_0 '') = Some 10"
  by (simp add: ascii_defs)

lemma ascii_int_separator: "py_int ascii_text [28, 53] = None"
  by (simp add: ascii_defs)


subsection \<open>Searching\<close>




lemma search_books_example:
  "fst (search_books ascii_text (str_of '' hERb '') demo_store) = [dune] \<and>
   fst (search_books ascii_text (str_of ''e'') demo_store) = [dune, emma] \<and>
   fst (search_books ascii_text (str_of ''textbook'') demo_store) = []"
  by (simp add: search_books_def Let_def demo_defs ascii_text_def ascii_strip_def
      ascii_space_def ascii_lower_def)

subsection \<open>Updating the copies of a book\<close>

lemma find_replace_book:
  "find (\<lambda>x. book_id x = bid) bs = Some b \<Longrightarrow> book_id b' = bid \<Longrightarrow>
   find (\<lambda>x. book_id x = bid) (replace_book bid b' bs) = Some b'"
  by (induction bs) (auto split: if_splits)


lemma replace_book_others:
  "book_id b' = bid \<Longrightarrow>
   filter (\<lambda>x. book_id x \<noteq> bid) (replace_book bid b' bs) = filter (\<lambda>x. book_id x \<noteq> bid) bs"
  by (induction bs) auto

lemma find_book_id: "find (\<lambda>x. book_id x = bid) bs = Some b \<Longrightarrow> book_id b = bid"
  by (induction bs) (auto split: if_splits)

lemma find_book_None: "find_book bid s = None \<longleftrightarrow> bid \<notin> book_id ` set (books s)"
  by (auto simp: find_book_def find_None_iff)

lemma find_card_None: "find_card cno s = None \<longleftrightarrow> cno \<notin> card_no ` set (library_cards s)"
  by (auto simp: find_card_def find_None_iff)

lemma find_card_Some:
  "cno \<in> card_no ` set (library_cards s) \<Longrightarrow> \<exists>c. find_card cno s = Some c"
  using find_card_None [of cno s] by (cases "find_card cno s") auto

lemma update_book_copies_found:
  assumes "find_book bid s = Some b"
  shows "update_book_copies bid delta s =
    (True, s\<lparr>books := replace_book bid (b\<lparr>copies := max 0 (copies b + delta)\<rparr>) (books s)\<rparr>)"
  using assms by (simp add: update_book_copies_def Let_def max_def)

text \<open>
  Claim C5: for every book identifier and every integer delta, \<^verbatim>\<open>update_book_copies\<close>
  returns true exactly when a book with the identifier is in the books collection; it
  then stores the old copies plus delta, clamped at 0, in the first such book and leaves
  every other book alone, so the stored value is never below 0. When no book has the
  identifier the document is unchanged.
\<close>

theorem update_book_copies_clamps:
  "(fst (update_book_copies bid delta s) \<longleftrightarrow> bid \<in> book_id ` set (books s)) \<and>
   (\<forall>b. find_book bid s = Some b \<longrightarrow>
        find_book bid (snd (update_book_copies bid delta s)) =
          Some (b\<lparr>copies := max 0 (copies b + delta)\<rparr>) \<and>
        0 \<le> copies (the (find_book bid (snd (update_book_copies bid delta s)))) \<and>
        filter (\<lambda>x. book_id x \<noteq> bid) (books (snd (update_book_copies bid delta s))) =
          filter (\<lambda>x. book_id x \<noteq> bid) (books s)) \<and>
   (find_book bid s = None \<longrightarrow> snd (update_book_copies bid delta s) = s)"
proof (cases "find_book bid s")
  case None
  then have "bid \<notin> book_id ` set (books s)"
    using find_book_None [of bid s] by simp
  with None show ?thesis
    by (simp add: update_book_copies_def)
next
  case (Some b)
  let ?b' = "b\<lparr>copies := max 0 (copies b + delta)\<rparr>"
  let ?r = "update_book_copies bid delta s"
  have fb: "find (\<lambda>x. book_id x = bid) (books s) = Some b"
    using Some unfolding find_book_def .
  have id: "book_id ?b' = bid"
    using find_book_id [OF fb] by simp
  have upd: "?r = (True, s\<lparr>books := replace_book bid ?b' (books s)\<rparr>)"
    by (rule update_book_copies_found [OF Some])
  have mem: "bid \<in> book_id ` set (books s)"
    using Some find_book_None [of bid s] by auto
  have c1: "fst ?r"
    by (simp add: upd)
  have c2: "find_book bid (snd ?r) = Some ?b'"
    unfolding upd find_book_def using find_replace_book [OF fb id] by simp
  have c3: "0 \<le> copies ?b'"
    by simp
  have c4: "filter (\<lambda>x. book_id x \<noteq> bid) (books (snd ?r)) =
      filter (\<lambda>x. book_id x \<noteq> bid) (books s)"
    unfolding upd using replace_book_others [OF id] by simp
  have all: "\<forall>b'. find_book bid s = Some b' \<longrightarrow>
        find_book bid (snd ?r) = Some (b'\<lparr>copies := max 0 (copies b' + delta)\<rparr>) \<and>
        0 \<le> copies (the (find_book bid (snd ?r))) \<and>
        filter (\<lambda>x. book_id x \<noteq> bid) (books (snd ?r)) =
          filter (\<lambda>x. book_id x \<noteq> bid) (books s)"
  proof (intro allI impI)
    fix b'
    assume "find_book bid s = Some b'"
    with Some have "b' = b" by simp
    with c2 c3 c4 show "find_book bid (snd ?r) =
          Some (b'\<lparr>copies := max 0 (copies b' + delta)\<rparr>) \<and>
        0 \<le> copies (the (find_book bid (snd ?r))) \<and>
        filter (\<lambda>x. book_id x \<noteq> bid) (books (snd ?r)) =
          filter (\<lambda>x. book_id x \<noteq> bid) (books s)"
      by simp
  qed
  have none: "find_book bid s = None \<longrightarrow> snd ?r = s"
    using Some by simp
  from c1 mem all none show ?thesis
    by blast
qed

theorem update_book_copies_clamps_witness:
  "fst (update_book_copies 1 (- 5) demo_store) \<and>
   find_book 1 (snd (update_book_copies 1 (- 5) demo_store)) = Some (dune\<lparr>copies := 0\<rparr>) \<and>
   \<not> fst (update_book_copies 7 3 demo_store) \<and>
   snd (update_book_copies 7 3 demo_store) = demo_store"
proof -
  have h1: "find_book 1 demo_store = Some dune"
    by (simp add: find_book_def demo_defs)
  have h7: "find_book 7 demo_store = None \<and> 7 \<notin> book_id ` set (books demo_store)"
    by (simp add: find_book_def demo_defs)
  have c: "max 0 (copies dune + - 5) = 0" "1 \<in> book_id ` set (books demo_store)"
    by (simp_all add: demo_defs)
  show ?thesis
    using h1 h7 c update_book_copies_clamps [of 1 "- 5" demo_store]
      update_book_copies_clamps [of 7 3 demo_store]
    by simp
qed

subsection \<open>Identifiers\<close>

lemma next_ids_values:
  "fst (next_ids key n s) = map (\<lambda>k. get_counter key s + int k) [0..<n] \<and>
   get_counter key (snd (next_ids key n s)) = get_counter key s + int n"
proof (induction n arbitrary: s)
  case 0
  then show ?case by simp
next
  case (Suc n)
  let ?s1 = "set_counter key (get_counter key s + 1) s"
  have c1: "get_counter key ?s1 = get_counter key s + 1"
    by (cases key) simp_all
  have "map (\<lambda>k. get_counter key s + int k) [0..<Suc n] =
        get_counter key s # map (\<lambda>k. get_counter key s + 1 + int k) [0..<n]"
    by (simp add: upt_rec [of 0 "Suc n"] map_Suc_upt [symmetric] del: upt_Suc)
  then show ?case
    using Suc.IH [of ?s1] c1
    by (simp add: get_next_id_def split_beta Let_def del: upt_Suc)
qed

lemma sorted_shifted: "sorted_wrt (<) (map (\<lambda>k. (c::int) + int k) [0..<n])"
  by (simp add: sorted_wrt_map sorted_wrt_iff_nth_less)

lemma add_book_id:
  "fst (add_book py t a g c s) = Inr i \<Longrightarrow>
   i = next_book_id s \<and> next_book_id (snd (add_book py t a g c s)) = next_book_id s + 1"
  by (auto simp: add_book_def get_next_id_def split: option.splits)

lemma add_book_counter_mono: "next_book_id s \<le> next_book_id (snd (add_book py t a g c s))"
  by (auto simp: add_book_def get_next_id_def split: option.splits)

lemma add_books_lower:
  "next_book_id s \<le> next_book_id (snd (add_books py inputs s)) \<and>
   (\<forall>i \<in> set (allocated (fst (add_books py inputs s))).
      next_book_id s \<le> i \<and> i < next_book_id (snd (add_books py inputs s)))"
proof (induction inputs arbitrary: s)
  case Nil
  then show ?case by simp
next
  case (Cons x rest)
  obtain t a g c where x: "x = (t, a, g, c)"
    by (cases x) auto
  let ?s1 = "snd (add_book py t a g c s)"
  have mono: "next_book_id s \<le> next_book_id ?s1"
    by (rule add_book_counter_mono)
  note ih = Cons.IH [of ?s1]
  show ?case
  proof (cases "fst (add_book py t a g c s)")
    case (Inl e)
    then show ?thesis
      using ih mono by (auto simp: x split_beta Let_def)
  next
    case (Inr i)
    then show ?thesis
      using ih mono add_book_id [OF Inr] by (auto simp: x split_beta Let_def)
  qed
qed

lemma add_books_sorted: "sorted_wrt (<) (allocated (fst (add_books py inputs s)))"
proof (induction inputs arbitrary: s)
  case Nil
  then show ?case by simp
next
  case (Cons x rest)
  obtain t a g c where x: "x = (t, a, g, c)"
    by (cases x) auto
  let ?s1 = "snd (add_book py t a g c s)"
  note ih = Cons.IH [of ?s1]
  show ?case
  proof (cases "fst (add_book py t a g c s)")
    case (Inl e)
    then show ?thesis
      using ih by (simp add: x split_beta Let_def)
  next
    case (Inr i)
    then show ?thesis
      using ih add_book_id [OF Inr] add_books_lower [of ?s1 py rest]
      by (auto simp: x split_beta Let_def)
  qed
qed

text \<open>
  Claim C6: a call of \<^verbatim>\<open>get_next_id\<close> returns the stored counter and stores it plus
  one; \<open>n\<close> calls in a row on one counter return the stored value, the next one, and so
  on, so the values are strictly increasing and none comes twice; the book identifiers
  that a row of \<^verbatim>\<open>add_book\<close> calls allocates are strictly increasing and distinct,
  whatever is typed at each call.
\<close>

theorem ids_strictly_increasing:
  "fst (get_next_id key s) = get_counter key s \<and>
   get_counter key (snd (get_next_id key s)) = get_counter key s + 1 \<and>
   fst (next_ids key n s) = map (\<lambda>k. get_counter key s + int k) [0..<n] \<and>
   get_counter key (snd (next_ids key n s)) = get_counter key s + int n \<and>
   sorted_wrt (<) (fst (next_ids key n s)) \<and>
   distinct (fst (next_ids key n s)) \<and>
   sorted_wrt (<) (allocated (fst (add_books py inputs s))) \<and>
   distinct (allocated (fst (add_books py inputs s)))"
proof -
  have one: "get_counter key (snd (get_next_id key s)) = get_counter key s + 1"
    by (cases key) (simp_all add: get_next_id_def)
  have vals: "fst (next_ids key n s) = map (\<lambda>k. get_counter key s + int k) [0..<n]"
    using next_ids_values by simp
  have after: "get_counter key (snd (next_ids key n s)) = get_counter key s + int n"
    using next_ids_values by simp
  have srt: "sorted_wrt (<) (fst (next_ids key n s))"
    unfolding vals by (rule sorted_shifted)
  have srt2: "sorted_wrt (<) (allocated (fst (add_books py inputs s)))"
    by (rule add_books_sorted)
  have d1: "distinct (fst (next_ids key n s))"
    using srt strict_sorted_iff by blast
  have d2: "distinct (allocated (fst (add_books py inputs s)))"
    using srt2 strict_sorted_iff by blast
  have zero: "fst (get_next_id key s) = get_counter key s"
    by (simp add: get_next_id_def)
  from zero one vals after srt d1 srt2 d2 show ?thesis
    by blast
qed

lemma add_books_example:
  "allocated (fst (add_books ascii_text
     [(str_of ''Dune'', str_of ''Herbert'', str_of ''SciFi'', str_of ''2''),
      (str_of ''Emma'', str_of ''Austen'', str_of ''Novel'', str_of ''abc''),
      (str_of ''Emma'', str_of ''Austen'', str_of ''Novel'', str_of ''7'')]
     default_store)) = [1, 2]"
  using ascii_int_2 ascii_int_abc ascii_int_7
  by (simp add: add_book_def get_next_id_def default_store_def)

subsection \<open>Issuing a book: each way through the operation\<close>

lemma issue_book_bad_card:
  "py_int py card_in = None \<Longrightarrow>
   issue_book py today1 today2 today3 card_in name_in address_in phone_in book_in s =
     (Inl InvalidInput, s)"
  by (simp add: issue_book_def)

lemma issue_book_no_card:
  "py_int py card_in = Some cno \<Longrightarrow> find_card cno s = None \<Longrightarrow>
   issue_book py today1 today2 today3 card_in name_in address_in phone_in book_in s =
     (Inl CardNotFound, s)"
  by (simp add: issue_book_def)

lemma issue_book_bad_book:
  "py_int py card_in = Some cno \<Longrightarrow> find_card cno s = Some c \<Longrightarrow>
   py_int py book_in = None \<Longrightarrow>
   issue_book py today1 today2 today3 card_in name_in address_in phone_in book_in s =
     (Inl InvalidInput, s)"
  by (simp add: issue_book_def)

lemma issue_book_no_book:
  "py_int py card_in = Some cno \<Longrightarrow> find_card cno s = Some c \<Longrightarrow>
   py_int py book_in = Some bid \<Longrightarrow> find_book bid s = None \<Longrightarrow>
   issue_book py today1 today2 today3 card_in name_in address_in phone_in book_in s =
     (Inl BookNotFound, s)"
  by (simp add: issue_book_def)

lemma issue_book_no_copies:
  "py_int py card_in = Some cno \<Longrightarrow> find_card cno s = Some c \<Longrightarrow>
   py_int py book_in = Some bid \<Longrightarrow> find_book bid s = Some b \<Longrightarrow> copies b \<le> 0 \<Longrightarrow>
   issue_book py today1 today2 today3 card_in name_in address_in phone_in book_in s =
     (Inl NoCopiesAvailable, s)"
  by (simp add: issue_book_def)

lemma issue_book_bad_date:
  "py_int py card_in = Some cno \<Longrightarrow> find_card cno s = Some c \<Longrightarrow>
   py_int py book_in = Some bid \<Longrightarrow> find_book bid s = Some b \<Longrightarrow> 0 < copies b \<Longrightarrow>
   replace_day today2 (day today3 + 14) = None \<Longrightarrow>
   issue_book py today1 today2 today3 card_in name_in address_in phone_in book_in s =
     (Inl InvalidInput, s\<lparr>next_borrower_id := next_borrower_id s + 1\<rparr>)"
  by (simp add: issue_book_def get_next_id_def)

lemma issue_book_ok:
  assumes "py_int py card_in = Some cno" and "find_card cno s = Some c"
    and "py_int py book_in = Some bid" and "find_book bid s = Some b" and "0 < copies b"
    and "replace_day today2 (day today3 + 14) = Some due"
  shows "issue_book py today1 today2 today3 card_in name_in address_in phone_in book_in s =
     (Inr (next_borrower_id s),
      s\<lparr>next_borrower_id := next_borrower_id s + 1,
        borrowers := borrowers s @
          [\<lparr>borrower_id = next_borrower_id s, br_card_no = cno,
            br_name = py_strip py name_in, address = py_strip py address_in,
            phone = py_strip py phone_in, br_book_id = bid, book_title = title b,
            issued_date = strftime today1, return_date = strftime due\<rparr>],
        books := replace_book bid (b\<lparr>copies := copies b - 1\<rparr>) (books s)\<rparr>)"
proof -
  let ?nbr = "\<lparr>borrower_id = next_borrower_id s, br_card_no = cno,
            br_name = py_strip py name_in, address = py_strip py address_in,
            phone = py_strip py phone_in, br_book_id = bid, book_title = title b,
            issued_date = strftime today1, return_date = strftime due\<rparr>"
  let ?s2 = "s\<lparr>next_borrower_id := next_borrower_id s + 1,
               borrowers := borrowers s @ [?nbr]\<rparr>"
  have r: "issue_book py today1 today2 today3 card_in name_in address_in phone_in book_in s =
     (Inr (next_borrower_id s), snd (update_book_copies bid (- 1) ?s2))"
    using assms by (simp add: issue_book_def get_next_id_def Let_def)
  have f: "find_book bid ?s2 = Some b"
    using assms(4) by (simp add: find_book_def)
  have m: "max 0 (copies b + - 1) = copies b - 1"
    using assms(5) by simp
  have "snd (update_book_copies bid (- 1) ?s2) =
      ?s2\<lparr>books := replace_book bid (b\<lparr>copies := copies b - 1\<rparr>) (books ?s2)\<rparr>"
    using update_book_copies_found [OF f, of "- 1"] m by simp
  then show ?thesis
    using r by simp
qed

lemma issue_book_cases:
  obtains
    (bad_card) "issue_book py today1 today2 today3 card_in name_in address_in phone_in book_in s =
       (Inl InvalidInput, s)"
  | (no_card) cno where "py_int py card_in = Some cno" and "find_card cno s = None"
      and "issue_book py today1 today2 today3 card_in name_in address_in phone_in book_in s =
       (Inl CardNotFound, s)"
  | (no_book) cno c bid where "py_int py card_in = Some cno" and "find_card cno s = Some c"
      and "py_int py book_in = Some bid" and "find_book bid s = None"
      and "issue_book py today1 today2 today3 card_in name_in address_in phone_in book_in s =
       (Inl BookNotFound, s)"
  | (no_copies) cno c bid b where "py_int py card_in = Some cno"
      and "find_card cno s = Some c" and "py_int py book_in = Some bid"
      and "find_book bid s = Some b" and "copies b \<le> 0"
      and "issue_book py today1 today2 today3 card_in name_in address_in phone_in book_in s =
       (Inl NoCopiesAvailable, s)"
  | (bad_date) "issue_book py today1 today2 today3 card_in name_in address_in phone_in book_in s =
       (Inl InvalidInput, s\<lparr>next_borrower_id := next_borrower_id s + 1\<rparr>)"
  | (ok) bid b nbr where "py_int py book_in = Some bid" and "find_book bid s = Some b"
      and "0 < copies b" and "borrower_id nbr = next_borrower_id s" and "br_book_id nbr = bid"
      and "issue_book py today1 today2 today3 card_in name_in address_in phone_in book_in s =
       (Inr (next_borrower_id s),
        s\<lparr>next_borrower_id := next_borrower_id s + 1,
          borrowers := borrowers s @ [nbr],
          books := replace_book bid (b\<lparr>copies := copies b - 1\<rparr>) (books s)\<rparr>)"
proof (cases "py_int py card_in")
  case None
  then show thesis
    using bad_card issue_book_bad_card by blast
next
  case c1: (Some cno)
  show thesis
  proof (cases "find_card cno s")
    case None
    then show thesis
      using no_card [OF c1] issue_book_no_card [OF c1] by blast
  next
    case c2: (Some c)
    show thesis
    proof (cases "py_int py book_in")
      case None
      then show thesis
        using bad_card issue_book_bad_book [OF c1 c2] by blast
    next
      case c3: (Some bid)
      show thesis
      proof (cases "find_book bid s")
        case None
        then show thesis
          using no_book [OF c1 c2 c3] issue_book_no_book [OF c1 c2 c3] by blast
      next
        case c4: (Some b)
        show thesis
        proof (cases "copies b \<le> 0")
          case True
          then show thesis
            using no_copies [OF c1 c2 c3 c4] issue_book_no_copies [OF c1 c2 c3 c4] by blast
        next
          case False
          then have c5: "0 < copies b" by simp
          show thesis
          proof (cases "replace_day today2 (day today3 + 14)")
            case None
            then show thesis
              using bad_date issue_book_bad_date [OF c1 c2 c3 c4 c5] by blast
          next
            case (Some due)
            let ?nbr = "\<lparr>borrower_id = next_borrower_id s, br_card_no = cno,
              br_name = py_strip py name_in, address = py_strip py address_in,
              phone = py_strip py phone_in, br_book_id = bid, book_title = title b,
              issued_date = strftime today1, return_date = strftime due\<rparr>"
            have "borrower_id ?nbr = next_borrower_id s" "br_book_id ?nbr = bid"
              by simp_all
            then show thesis
              using ok [OF c3 c4 c5, of ?nbr]
                issue_book_ok [OF c1 c2 c3 c4 c5 Some, of today1 name_in address_in phone_in]
              by blast
          qed
        qed
      qed
    qed
  qed
qed

subsection \<open>Issuing a book: the checks\<close>

text \<open>
  Claim C7: \<^verbatim>\<open>issue_book\<close> fails with CardNotFound whenever the card number is not in
  the library cards, whatever is typed for the book, so the card check comes before the
  book checks; given a card that exists, it fails with BookNotFound whenever the book
  identifier is not in the books; given a card and a book that exist, it fails with
  NoCopiesAvailable whenever the copies of the book are at most 0.
\<close>

theorem issue_book_checks:
  "(py_int py card_in = Some cno \<and> cno \<notin> card_no ` set (library_cards s) \<longrightarrow>
      fst (issue_book py today1 today2 today3 card_in name_in address_in phone_in book_in s) =
        Inl CardNotFound) \<and>
   (py_int py card_in = Some cno \<and> cno \<in> card_no ` set (library_cards s) \<and>
    py_int py book_in = Some bid \<and> bid \<notin> book_id ` set (books s) \<longrightarrow>
      fst (issue_book py today1 today2 today3 card_in name_in address_in phone_in book_in s) =
        Inl BookNotFound) \<and>
   (py_int py card_in = Some cno \<and> cno \<in> card_no ` set (library_cards s) \<and>
    py_int py book_in = Some bid \<and> find_book bid s = Some b \<and> copies b \<le> 0 \<longrightarrow>
      fst (issue_book py today1 today2 today3 card_in name_in address_in phone_in book_in s) =
        Inl NoCopiesAvailable)"
proof (intro conjI impI)
  assume h: "py_int py card_in = Some cno \<and> cno \<notin> card_no ` set (library_cards s)"
  then have "find_card cno s = None"
    using find_card_None [of cno s] by simp
  with h show
    "fst (issue_book py today1 today2 today3 card_in name_in address_in phone_in book_in s) =
      Inl CardNotFound"
    by (simp add: issue_book_no_card)
next
  assume h: "py_int py card_in = Some cno \<and> cno \<in> card_no ` set (library_cards s) \<and>
    py_int py book_in = Some bid \<and> bid \<notin> book_id ` set (books s)"
  then obtain c where c: "find_card cno s = Some c"
    using find_card_Some by blast
  from h have "find_book bid s = None"
    using find_book_None [of bid s] by simp
  with h c show
    "fst (issue_book py today1 today2 today3 card_in name_in address_in phone_in book_in s) =
      Inl BookNotFound"
    by (simp add: issue_book_no_book)
next
  assume h: "py_int py card_in = Some cno \<and> cno \<in> card_no ` set (library_cards s) \<and>
    py_int py book_in = Some bid \<and> find_book bid s = Some b \<and> copies b \<le> 0"
  then obtain c where "find_card cno s = Some c"
    using find_card_Some by blast
  with h show
    "fst (issue_book py today1 today2 today3 card_in name_in address_in phone_in book_in s) =
      Inl NoCopiesAvailable"
    by (simp add: issue_book_no_copies)
qed

theorem issue_book_checks_witness:
  "fst (issue_book ascii_text jan5 jan5 jan5 (str_of ''7'') [] [] [] (str_of ''x'') demo_store) =
     Inl CardNotFound \<and>
   fst (issue_book ascii_text jan5 jan5 jan5 (str_of ''7'') [] [] [] (str_of ''7'') demo_store) =
     Inl CardNotFound \<and>
   fst (issue_book ascii_text jan5 jan5 jan5 (str_of ''1'') (str_of ''Alice'')
          (str_of ''Elm Road'') (str_of ''555'') (str_of ''7'') demo_store) =
     Inl BookNotFound \<and>
   fst (issue_book ascii_text jan5 jan5 jan5 (str_of ''1'') (str_of ''Alice'')
          (str_of ''Elm Road'') (str_of ''555'') (str_of ''2'') demo_store) =
     Inl NoCopiesAvailable"
proof -
  have c7: "py_int ascii_text (str_of ''7'') = Some 7 \<and>
            7 \<notin> card_no ` set (library_cards demo_store)"
    using ascii_int_7 by (simp add: demo_defs)
  have b7: "py_int ascii_text (str_of ''1'') = Some 1 \<and>
            1 \<in> card_no ` set (library_cards demo_store) \<and>
            py_int ascii_text (str_of ''7'') = Some 7 \<and>
            7 \<notin> book_id ` set (books demo_store)"
    using ascii_int_1 ascii_int_7 by (simp add: demo_defs)
  have b2: "py_int ascii_text (str_of ''1'') = Some 1 \<and>
            1 \<in> card_no ` set (library_cards demo_store) \<and>
            py_int ascii_text (str_of ''2'') = Some 2 \<and>
            find_book 2 demo_store = Some emma \<and> copies emma \<le> 0"
    using ascii_int_1 ascii_int_2 by (simp add: find_book_def demo_defs)
  show ?thesis
    using c7 b7 b2
      issue_book_checks [of ascii_text "str_of ''7''" 7 demo_store jan5 jan5 jan5 "[]" "[]" "[]"
        "str_of ''x''"]
      issue_book_checks [of ascii_text "str_of ''7''" 7 demo_store jan5 jan5 jan5 "[]" "[]" "[]"
        "str_of ''7''"]
      issue_book_checks [of ascii_text "str_of ''1''" 1 demo_store jan5 jan5 jan5
        "str_of ''Alice''" "str_of ''Elm Road''" "str_of ''555''" "str_of ''7''" 7]
      issue_book_checks [of ascii_text "str_of ''1''" 1 demo_store jan5 jan5 jan5
        "str_of ''Alice''" "str_of ''Elm Road''" "str_of ''555''" "str_of ''2''" 2 emma]
    by blast
qed

text \<open>
  Claim C10: whenever \<^verbatim>\<open>issue_book\<close> fails with CardNotFound, BookNotFound or
  NoCopiesAvailable, the document it leaves behind is the document it was given: no
  borrower record is added, no copies are changed and no counter is incremented.
\<close>

theorem issue_book_failure_keeps_store:
  assumes "fst (issue_book py today1 today2 today3 card_in name_in address_in phone_in
              book_in s) \<in> {Inl CardNotFound, Inl BookNotFound, Inl NoCopiesAvailable}"
  shows "snd (issue_book py today1 today2 today3 card_in name_in address_in phone_in
              book_in s) = s"
proof (cases rule: issue_book_cases [where py = py and card_in = card_in and s = s
      and book_in = book_in and ?today1.0 = today1 and ?today2.0 = today2
      and ?today3.0 = today3 and name_in = name_in and address_in = address_in
      and phone_in = phone_in])
  case bad_card
  then show ?thesis by simp
next
  case (no_card cno)
  then show ?thesis by simp
next
  case (no_book cno c bid)
  then show ?thesis by simp
next
  case (no_copies cno c bid b)
  then show ?thesis by simp
next
  case bad_date
  then show ?thesis using assms by simp
next
  case (ok bid b nbr)
  then show ?thesis using assms by simp
qed

theorem issue_book_failure_keeps_store_witness:
  "snd (issue_book ascii_text jan5 jan5 jan5 (str_of ''7'') [] [] [] (str_of ''x'') demo_store) =
     demo_store \<and>
   snd (issue_book ascii_text jan5 jan5 jan5 (str_of ''1'') (str_of ''Alice'')
          (str_of ''Elm Road'') (str_of ''555'') (str_of ''7'') demo_store) = demo_store \<and>
   snd (issue_book ascii_text jan5 jan5 jan5 (str_of ''1'') (str_of ''Alice'')
          (str_of ''Elm Road'') (str_of ''555'') (str_of ''2'') demo_store) = demo_store"
proof -
  have c1: "find_card 1 demo_store = Some alice" and c7: "find_card 7 demo_store = None"
    and b7: "find_book 7 demo_store = None" and b2: "find_book 2 demo_store = Some emma"
    and e: "copies emma \<le> 0"
    by (simp_all add: find_card_def find_book_def demo_defs)
  have r1: "fst (issue_book ascii_text jan5 jan5 jan5 (str_of ''7'') [] [] [] (str_of ''x'')
      demo_store) = Inl CardNotFound"
    using issue_book_no_card [OF ascii_int_7 c7] by simp
  have r2: "fst (issue_book ascii_text jan5 jan5 jan5 (str_of ''1'') (str_of ''Alice'')
      (str_of ''Elm Road'') (str_of ''555'') (str_of ''7'') demo_store) = Inl BookNotFound"
    using issue_book_no_book [OF ascii_int_1 c1 ascii_int_7 b7] by simp
  have r3: "fst (issue_book ascii_text jan5 jan5 jan5 (str_of ''1'') (str_of ''Alice'')
      (str_of ''Elm Road'') (str_of ''555'') (str_of ''2'') demo_store) = Inl NoCopiesAvailable"
    using issue_book_no_copies [OF ascii_int_1 c1 ascii_int_2 b2 e] by simp
  show ?thesis
    using r1 r2 r3
      issue_book_failure_keeps_store [of ascii_text jan5 jan5 jan5 "str_of ''7''" "[]" "[]"
        "[]" "str_of ''x''" demo_store]
      issue_book_failure_keeps_store [of ascii_text jan5 jan5 jan5 "str_of ''1''"
        "str_of ''Alice''" "str_of ''Elm Road''" "str_of ''555''" "str_of ''7''" demo_store]
      issue_book_failure_keeps_store [of ascii_text jan5 jan5 jan5 "str_of ''1''"
        "str_of ''Alice''" "str_of ''Elm Road''" "str_of ''555''" "str_of ''2''" demo_store]
    by simp
qed

subsection \<open>The due date\<close>

lemma demo_lookups:
  "find_card 1 demo_store = Some alice" "find_book 1 demo_store = Some dune"
  "find_card 1 clash_store = Some alice" "find_book 1 clash_store = Some dune"
  "0 < copies dune"
  by (simp_all add: find_card_def find_book_def demo_defs)

lemma replace_day_examples:
  "replace_day jan5 (day jan5 + 14) = Some (jan5\<lparr>day := 19\<rparr>)"
  "replace_day jan20 (day jan20 + 14) = None"
  by (simp_all add: date_defs demo_defs)


text \<open>
  Claim C2 does not hold of the code: the due date is built by replacing the day of the
  month with the day plus 14, so an issue on 20 January 2024, with a card and a book that
  exist and copies at hand, asks for day 34. \<^verbatim>\<open>replace\<close> raises
  \<^verbatim>\<open>ValueError\<close>, the handler reports invalid input, no borrower record is
  added, and the borrower counter has already been incremented.
\<close>

theorem issue_book_late_in_month:
  "issue_book ascii_text jan20 jan20 jan20 (str_of ''1'') (str_of ''Alice'')
     (str_of ''Elm Road'') (str_of ''555'') (str_of ''1'') demo_store =
   (Inl InvalidInput, demo_store\<lparr>next_borrower_id := 2\<rparr>)"
  using issue_book_bad_date [OF ascii_int_1 demo_lookups(1) ascii_int_1 demo_lookups(2)
      demo_lookups(5) replace_day_examples(2), of jan20 "str_of ''Alice''"
      "str_of ''Elm Road''" "str_of ''555''"]
  by (simp add: demo_defs)

subsection \<open>Issuing a book and returning it at once\<close>







subsection \<open>Borrower identifiers stay below the borrower counter\<close>

text \<open>
  The documents on which the round trip is exact include every document that the
  operations reach from the default document: there each borrower identifier is below
  the borrower counter, so the identifier that \<^verbatim>\<open>issue_book\<close> allocates is new.
\<close>

lemma update_book_copies_borrowers:
  "borrowers (snd (update_book_copies bid change s)) = borrowers s \<and>
   next_borrower_id (snd (update_book_copies bid change s)) = next_borrower_id s"
  by (cases "find_book bid s") (simp_all add: update_book_copies_def Let_def)

lemma add_book_borrowers:
  "borrowers (snd (add_book py t a g c s)) = borrowers s \<and>
   next_borrower_id (snd (add_book py t a g c s)) = next_borrower_id s"
  by (cases "py_int py c") (simp_all add: add_book_def get_next_id_def)

lemma issue_card_borrowers:
  "borrowers (snd (issue_card py today n b m s)) = borrowers s \<and>
   next_borrower_id (snd (issue_card py today n b m s)) = next_borrower_id s"
  by (cases "py_int py m") (simp_all add: issue_card_def get_next_id_def)

lemma return_book_borrowers:
  "set (borrowers (snd (return_book py r s))) \<subseteq> set (borrowers s) \<and>
   next_borrower_id (snd (return_book py r s)) = next_borrower_id s"
proof (cases "py_int py r")
  case None
  then show ?thesis by (simp add: return_book_def)
next
  case (Some brid)
  show ?thesis
  proof (cases "find (\<lambda>br. borrower_id br = brid) (borrowers s)")
    case None
    with Some show ?thesis by (simp add: return_book_def)
  next
    case (Some br)
    with \<open>py_int py r = Some brid\<close> show ?thesis
      using update_book_copies_borrowers [of "br_book_id br" 1 s]
      by (simp add: return_book_def Let_def)
  qed
qed

lemma issue_book_keeps_below_counter:
  assumes "borrower_ids_below_counter s"
  shows "borrower_ids_below_counter
    (snd (issue_book py today1 today2 today3 card_in name_in address_in phone_in book_in s))"
proof (cases rule: issue_book_cases [where py = py and card_in = card_in and s = s
      and book_in = book_in and ?today1.0 = today1 and ?today2.0 = today2
      and ?today3.0 = today3 and name_in = name_in and address_in = address_in
      and phone_in = phone_in])
  case bad_card
  then show ?thesis using assms by simp
next
  case (no_card cno)
  then show ?thesis using assms by simp
next
  case (no_book cno c bid)
  then show ?thesis using assms by simp
next
  case (no_copies cno c bid b)
  then show ?thesis using assms by simp
next
  case bad_date
  then show ?thesis using assms by (force simp: borrower_ids_below_counter_def)
next
  case (ok bid b nbr)
  then show ?thesis using assms by (force simp: borrower_ids_below_counter_def)
qed

lemma step_keeps_below_counter:
  assumes "borrower_ids_below_counter s"
  shows "borrower_ids_below_counter (step py cmd s)"
proof (cases cmd)
  case (AddBook t a g c)
  then show ?thesis
    using assms add_book_borrowers [of py t a g c s]
    by (simp add: borrower_ids_below_counter_def)
next
  case (UpdateCopies bid change)
  then show ?thesis
    using assms update_book_copies_borrowers [of bid change s]
    by (simp add: borrower_ids_below_counter_def)
next
  case (IssueCard today n b m)
  then show ?thesis
    using assms issue_card_borrowers [of py today n b m s]
    by (simp add: borrower_ids_below_counter_def)
next
  case (IssueBook t1 t2 t3 c n a p b)
  then show ?thesis
    using issue_book_keeps_below_counter [OF assms] by simp
next
  case (ReturnBook r)
  then show ?thesis
    using assms return_book_borrowers [of py r s]
    by (auto simp: borrower_ids_below_counter_def)
next
  case (SearchBooks k)
  then show ?thesis
    using assms by (simp add: search_books_def Let_def)
qed

lemma run_keeps_below_counter:
  "borrower_ids_below_counter s \<Longrightarrow> borrower_ids_below_counter (run py cmds s)"
  by (induction cmds arbitrary: s) (simp_all add: step_keeps_below_counter)

lemma reached_borrower_id_is_new:
  "next_borrower_id (run py cmds default_store) \<notin>
     borrower_id ` set (borrowers (run py cmds default_store))"
proof -
  have "borrower_ids_below_counter default_store"
    by (simp add: borrower_ids_below_counter_def default_store_def)
  then have "borrower_ids_below_counter (run py cmds default_store)"
    by (rule run_keeps_below_counter)
  then show ?thesis
    by (auto simp: borrower_ids_below_counter_def)
qed

subsection \<open>Adding a book\<close>


lemma add_book_integer:
  "py_int py copies_in = Some n \<Longrightarrow>
   add_book py title_in author_in genre_in copies_in s =
     (Inr (next_book_id s),
      s\<lparr>next_book_id := next_book_id s + 1,
        books := books s @
          [\<lparr>book_id = next_book_id s, title = py_strip py title_in,
            author = py_strip py author_in, genre = py_strip py genre_in, copies = n\<rparr>]\<rparr>)"
  by (simp add: add_book_def get_next_id_def)




subsection \<open>The copies of the books in the documents that the operations reach\<close>

text \<open>
  Claim C3 does not hold of the code: from the default document, one call of
  \<^verbatim>\<open>add_book\<close> with the copies text \<^verbatim>\<open>-5\<close> gives a document whose only book
  has \<open>-5\<close> copies. \<^verbatim>\<open>update_book_copies\<close> clamps the copies at 0;
  \<^verbatim>\<open>add_book\<close> stores what \<^verbatim>\<open>int\<close> returns.
\<close>

theorem negative_copies_reached:
  "map copies (books (run ascii_text
       [AddBook (str_of ''Dune'') (str_of ''Herbert'') (str_of ''SciFi'') (str_of ''-5'')]
       default_store)) = [- 5]"
  using add_book_integer [OF ascii_int_minus5, of "str_of ''Dune''" "str_of ''Herbert''"
      "str_of ''SciFi''" default_store]
  by (simp add: default_store_def)

subsection \<open>Loading the document\<close>

text \<open>
  Claim C8, as the code has it: \<^verbatim>\<open>load_data\<close> returns the default structure,
  with empty books, library cards and borrowers and the three counters at 1, and raises
  nothing, when the backing file is absent, or when opening and parsing it raises
  \<^verbatim>\<open>json.JSONDecodeError\<close> (the content is not JSON) or
  \<^verbatim>\<open>FileNotFoundError\<close>.
\<close>

theorem load_data_default:
  "load_data Absent = Inr default_data \<and>
   load_data (Present (Inl JSONDecodeError)) = Inr default_data \<and>
   load_data (Present (Inl FileNotFoundError)) = Inr default_data \<and>
   default_data = store_json default_store \<and>
   books default_store = [] \<and> library_cards default_store = [] \<and>
   borrowers default_store = [] \<and> next_book_id default_store = 1 \<and>
   next_card_no default_store = 1 \<and> next_borrower_id default_store = 1"
  by (simp add: default_data_def store_json_def default_store_def)

text \<open>
  The claim as it is worded, for every content that is not the expected document, fails
  in two ways. A file whose bytes are not text makes \<^verbatim>\<open>json.load\<close> raise
  \<^verbatim>\<open>UnicodeDecodeError\<close>, which the handler does not name, so \<^verbatim>\<open>load_data\<close>
  raises it. A file that holds the JSON text \<^verbatim>\<open>[]\<close> parses, and
  \<^verbatim>\<open>load_data\<close> returns the empty list, which is not the default structure.
\<close>

theorem load_data_not_default:
  "load_data (Present (Inl UnicodeDecodeError)) = Inl UnicodeDecodeError \<and>
   load_data (Present (Inr (JList []))) = Inr (JList []) \<and>
   JList [] \<noteq> default_data"
  by (simp add: default_data_def)

end
